theory Spec2Isabelle
  imports Main
begin

section \<open>Values, columns and frames\<close>

text \<open>
  The script \<^verbatim>\<open>create_database.py\<close> is one procedure, \<^verbatim>\<open>create_football_database\<close>,
  that drives three collaborators: the file system, pandas and sqlite3.  The embedding keeps
  the procedure statement by statement and gives each collaborator call a small executable
  model.

  A 64-bit float is either non-finite or the dyadic number \<open>m * 2 ^ e\<close>.  pandas writes a
  missing CSV field as the float \<open>NaN\<close>, in a float64 column and in an object column alike.
\<close>

datatype float64 = Finite int int | NaN | PosInf | NegInf

datatype pyobj = PStr string | PFloat float64 | PInt int | PBool bool

datatype dtype = DInt64 | DFloat64 | DObject | DBool

text \<open>A column carries its dtype in its constructor, so its cells always fit the dtype.\<close>

datatype series =
    IntS "int list"
  | FloatS "float64 list"
  | ObjectS "pyobj list"
  | BoolS "bool list"

fun dtype_of :: "series \<Rightarrow> dtype" where
  "dtype_of (IntS _) = DInt64"
| "dtype_of (FloatS _) = DFloat64"
| "dtype_of (ObjectS _) = DObject"
| "dtype_of (BoolS _) = DBool"

fun series_len :: "series \<Rightarrow> nat" where
  "series_len (IntS xs) = length xs"
| "series_len (FloatS xs) = length xs"
| "series_len (ObjectS xs) = length xs"
| "series_len (BoolS xs) = length xs"

text \<open>The missing-value marker of a column: a \<open>NaN\<close> cell.\<close>

fun has_missing :: "series \<Rightarrow> bool" where
  "has_missing (IntS _) = False"
| "has_missing (FloatS xs) = (NaN \<in> set xs)"
| "has_missing (ObjectS xs) = (PFloat NaN \<in> set xs)"
| "has_missing (BoolS _) = False"

text \<open>A frame is its columns in file order, each under its header name.\<close>

type_synonym dataframe = "(string \<times> series) list"

fun shape :: "dataframe \<Rightarrow> nat \<times> nat" where
  "shape [] = (0, 0)"
| "shape ((n, s) # cols) = (series_len s, Suc (length cols))"

definition dtypes :: "dataframe \<Rightarrow> (string \<times> dtype) list" where
  "dtypes df = map (\<lambda>(n, s). (n, dtype_of s)) df"

section \<open>Errors\<close>

text \<open>
  Every exception is a value.  \<open>LibraryError cls msg\<close> stands for an exception raised inside
  a collaborator for a reason outside the script (a parser error of pandas, an
  \<^verbatim>\<open>sqlite3.OperationalError\<close>).
\<close>

datatype error =
    FileNotFoundError string
  | KeyError string
  | ValueError string
  | OverflowError string
  | IntCastingNaNError string
  | LibraryError string string

section \<open>Column access and the cast to int64\<close>

text \<open>\<^verbatim>\<open>df[c]\<close>: the column under \<open>c\<close>, \<^verbatim>\<open>KeyError\<close> when there is none.\<close>

fun getitem :: "dataframe \<Rightarrow> string \<Rightarrow> error + series" where
  "getitem [] c = Inl (KeyError c)"
| "getitem ((n, s) # cols) c = (if n = c then Inr s else getitem cols c)"

text \<open>
  \<^verbatim>\<open>df[c] = s\<close>: an existing column is replaced where it stands, a new one is put last.
\<close>

fun setitem :: "dataframe \<Rightarrow> string \<Rightarrow> series \<Rightarrow> dataframe" where
  "setitem [] c s' = [(c, s')]"
| "setitem ((n, s) # cols) c s' =
     (if n = c then (n, s') # cols else (n, s) # setitem cols c s')"

definition int64_min :: int where
  "int64_min = - (2 ^ 63)"

definition int64_max :: int where
  "int64_max = 2 ^ 63 - 1"

text \<open>The integer part of \<open>m * 2 ^ e\<close>, rounded towards zero.\<close>

definition trunc :: "int \<Rightarrow> int \<Rightarrow> int" where
  "trunc m e =
     (if 0 \<le> e then m * 2 ^ nat e
      else if 0 \<le> m then m div 2 ^ nat (- e)
      else - ((- m) div 2 ^ nat (- e)))"

text \<open>
  The cast of one finite float64 cell, as the C conversion of NumPy does it: the fraction is
  cut off; a value outside the int64 range gives the smallest int64 (the result of the
  conversion instruction of x86-64; pandas silences the warning).
\<close>

definition float_to_int64 :: "int \<Rightarrow> int \<Rightarrow> int" where
  "float_to_int64 m e =
     (let t = trunc m e in if int64_min \<le> t \<and> t \<le> int64_max then t else int64_min)"

fun is_finite :: "float64 \<Rightarrow> bool" where
  "is_finite (Finite m e) = True"
| "is_finite NaN = False"
| "is_finite PosInf = False"
| "is_finite NegInf = False"

fun cast_float :: "float64 \<Rightarrow> int" where
  "cast_float (Finite m e) = float_to_int64 m e"
| "cast_float NaN = int64_min"
| "cast_float PosInf = int64_min"
| "cast_float NegInf = int64_min"

text \<open>
  The cast of one cell of an object column: Python's \<^verbatim>\<open>int(x)\<close>, then the store into an
  int64 slot.  What \<^verbatim>\<open>int\<close> makes of a \<^verbatim>\<open>str\<close> is a parameter \<open>pyint\<close>
  (\<open>None\<close> where it raises \<^verbatim>\<open>ValueError\<close>).
\<close>

definition into_int64 :: "int \<Rightarrow> error + int" where
  "into_int64 i =
     (if int64_min \<le> i \<and> i \<le> int64_max then Inr i
      else Inl (OverflowError ''Python int too large to convert to C long''))"

fun int_of_pyobj :: "(string \<Rightarrow> int option) \<Rightarrow> pyobj \<Rightarrow> error + int" where
  "int_of_pyobj pyint (PStr s) =
     (case pyint s of
        None \<Rightarrow> Inl (ValueError (''invalid literal for int() with base 10: '' @ s))
      | Some i \<Rightarrow> into_int64 i)"
| "int_of_pyobj pyint (PFloat (Finite m e)) = into_int64 (trunc m e)"
| "int_of_pyobj pyint (PFloat NaN) =
     Inl (ValueError ''cannot convert float NaN to integer'')"
| "int_of_pyobj pyint (PFloat PosInf) =
     Inl (OverflowError ''cannot convert float infinity to integer'')"
| "int_of_pyobj pyint (PFloat NegInf) =
     Inl (OverflowError ''cannot convert float infinity to integer'')"
| "int_of_pyobj pyint (PInt i) = into_int64 i"
| "int_of_pyobj pyint (PBool b) = Inr (if b then 1 else 0)"

text \<open>The cells of an object column are cast from left to right; the first failure is raised.\<close>

fun ints_of_pyobjs :: "(string \<Rightarrow> int option) \<Rightarrow> pyobj list \<Rightarrow> error + int list" where
  "ints_of_pyobjs pyint [] = Inr []"
| "ints_of_pyobjs pyint (x # xs) =
     (case int_of_pyobj pyint x of
        Inl e \<Rightarrow> Inl e
      | Inr i \<Rightarrow>
          (case ints_of_pyobjs pyint xs of
             Inl e \<Rightarrow> Inl e
           | Inr is \<Rightarrow> Inr (i # is)))"

text \<open>\<^verbatim>\<open>s.astype('int64')\<close>, by the dtype of \<open>s\<close>.\<close>

fun astype_int64 :: "(string \<Rightarrow> int option) \<Rightarrow> series \<Rightarrow> error + series" where
  "astype_int64 pyint (IntS xs) = Inr (IntS xs)"
| "astype_int64 pyint (FloatS xs) =
     (if list_all is_finite xs then Inr (IntS (map cast_float xs))
      else Inl (IntCastingNaNError ''Cannot convert non-finite values (NA or inf) to integer''))"
| "astype_int64 pyint (ObjectS xs) =
     (case ints_of_pyobjs pyint xs of Inl e \<Rightarrow> Inl e | Inr is \<Rightarrow> Inr (IntS is))"
| "astype_int64 pyint (BoolS xs) = Inr (IntS (map (\<lambda>b. if b then 1 else 0) xs))"

text \<open>One statement \<^verbatim>\<open>df[c] = df[c].astype('int64')\<close>.\<close>

definition astype_column :: "(string \<Rightarrow> int option) \<Rightarrow> string \<Rightarrow> dataframe \<Rightarrow> error + dataframe" where
  "astype_column pyint c df =
     (case getitem df c of
        Inl e \<Rightarrow> Inl e
      | Inr s \<Rightarrow>
          (case astype_int64 pyint s of
             Inl e \<Rightarrow> Inl e
           | Inr s' \<Rightarrow> Inr (setitem df c s')))"

text \<open>A run of such statements, one per name, in the order written.\<close>

fun astype_columns :: "(string \<Rightarrow> int option) \<Rightarrow> string list \<Rightarrow> dataframe \<Rightarrow> error + dataframe" where
  "astype_columns pyint [] df = Inr df"
| "astype_columns pyint (c # cs) df =
     (case astype_column pyint c df of
        Inl e \<Rightarrow> Inl e
      | Inr df' \<Rightarrow> astype_columns pyint cs df')"

text \<open>Lines 34 to 42 and lines 54 to 55 of the script: the columns cast, in order.\<close>

definition receiving_int_columns :: "string list" where
  "receiving_int_columns = [''#'', ''GP'', ''NO'', ''YDS'', ''TD'', ''Long'', ''PlayerID'']"

definition roster_int_columns :: "string list" where
  "roster_int_columns = [''id'', ''number'']"

section \<open>The store\<close>

datatype sqlval = SNull | SInt int | SReal float64 | SText string

record sql_table =
  schema :: "(string \<times> string) list"
  rows :: "sqlval list list"

type_synonym database = "string \<rightharpoonup> sql_table"

text \<open>The column type pandas declares for a dtype, and the value it binds for a cell.\<close>

fun sql_type_name :: "dtype \<Rightarrow> string" where
  "sql_type_name DInt64 = ''INTEGER''"
| "sql_type_name DFloat64 = ''REAL''"
| "sql_type_name DObject = ''TEXT''"
| "sql_type_name DBool = ''INTEGER''"

fun sql_of_float :: "float64 \<Rightarrow> sqlval" where
  "sql_of_float NaN = SNull"
| "sql_of_float x = SReal x"

fun sql_of_pyobj :: "pyobj \<Rightarrow> sqlval" where
  "sql_of_pyobj (PStr s) = SText s"
| "sql_of_pyobj (PFloat x) = sql_of_float x"
| "sql_of_pyobj (PInt i) = SInt i"
| "sql_of_pyobj (PBool b) = SInt (if b then 1 else 0)"

fun sql_values :: "series \<Rightarrow> sqlval list" where
  "sql_values (IntS xs) = map SInt xs"
| "sql_values (FloatS xs) = map sql_of_float xs"
| "sql_values (ObjectS xs) = map sql_of_pyobj xs"
| "sql_values (BoolS xs) = map (\<lambda>b. SInt (if b then 1 else 0)) xs"

text \<open>
  The table \<^verbatim>\<open>to_sql(..., index=False)\<close> creates from a frame: one declared column per frame
  column, one row per frame row.
\<close>

definition table_of :: "dataframe \<Rightarrow> sql_table" where
  "table_of df =
     \<lparr> schema = map (\<lambda>(n, s). (n, sql_type_name (dtype_of s))) df,
       rows = transpose (map (\<lambda>(n, s). sql_values s) df) \<rparr>"

text \<open>The rows \<^verbatim>\<open>PRAGMA table_info\<close> returns: cid, name, type, notnull, dflt_value, pk.\<close>

fun table_info_rows :: "nat \<Rightarrow> (string \<times> string) list \<Rightarrow> sqlval list list" where
  "table_info_rows cid [] = []"
| "table_info_rows cid ((n, t) # cols) =
     [SInt (int cid), SText n, SText t, SInt 0, SNull, SInt 0] # table_info_rows (Suc cid) cols"

section \<open>The world of one run\<close>

text \<open>
  What the script prints is kept as the list of its \<^verbatim>\<open>print\<close> calls.  One call is a list of
  fragments: the literal text of the (f-)string and the values formatted into it, whose
  rendering is left to Python.
\<close>

datatype pyval =
    VNat nat
  | VShape "nat \<times> nat"
  | VDtypes "(string \<times> dtype) list"
  | VRow "sqlval list"
  | VErr error

datatype fragment = Lit string | Val pyval

datatype db_op = OpToSql string | OpCursor | OpExecute string

datatype event =
    EExists string
  | EReadCsv string
  | EConnect string
  | EDb db_op
  | EClose

datatype conn_state = NoConn | Opened | Closed

record world =
  stdout :: "fragment list list"
  events :: "event list"
  conn :: conn_state
  db :: database

text \<open>
  What the run finds around it and does not change: the files (a file is what
  \<^verbatim>\<open>pd.read_csv\<close> makes of it, a frame or a parser error), Python's \<^verbatim>\<open>int\<close> on strings,
  and the faults of the store (the error a store operation raises, if any, before it
  changes anything).
\<close>

record env =
  fs :: "string \<rightharpoonup> (error + dataframe)"
  int_of_str :: "string \<Rightarrow> int option"
  connect_fault :: "string \<Rightarrow> error option"
  db_fault :: "db_op \<Rightarrow> error option"

text \<open>The state of the world when the process starts, over a store \<open>d\<close>.\<close>

definition init_world :: "database \<Rightarrow> world" where
  "init_world d = \<lparr> stdout = [], events = [], conn = NoConn, db = d \<rparr>"

section \<open>Statements\<close>

type_synonym 'a prog = "world \<Rightarrow> (error + 'a) \<times> world"

definition ret :: "'a \<Rightarrow> 'a prog" where
  "ret x w = (Inr x, w)"

definition raise :: "error \<Rightarrow> 'a prog" where
  "raise e w = (Inl e, w)"

text \<open>\<open>bnd m f\<close>: statement \<open>m\<close>, then \<open>f\<close> on its value; an exception of \<open>m\<close> skips \<open>f\<close>.\<close>

definition bnd :: "'a prog \<Rightarrow> ('a \<Rightarrow> 'b prog) \<Rightarrow> 'b prog" where
  "bnd m f w = (case m w of (Inl e, w') \<Rightarrow> (Inl e, w') | (Inr x, w') \<Rightarrow> f x w')"

definition lift :: "error + 'a \<Rightarrow> 'a prog" where
  "lift r w = (r, w)"

definition log_event :: "event \<Rightarrow> world \<Rightarrow> world" where
  "log_event ev w = w\<lparr> events := events w @ [ev] \<rparr>"

definition print :: "fragment list \<Rightarrow> unit prog" where
  "print l w = (Inr (), w\<lparr> stdout := stdout w @ [l] \<rparr>)"

text \<open>\<^verbatim>\<open>Path(p).exists()\<close> and \<^verbatim>\<open>pd.read_csv(p)\<close>.\<close>

definition path_exists :: "env \<Rightarrow> string \<Rightarrow> bool prog" where
  "path_exists env p w = (Inr (fs env p \<noteq> None), log_event (EExists p) w)"

definition read_csv :: "env \<Rightarrow> string \<Rightarrow> dataframe prog" where
  "read_csv env p w =
     (case fs env p of
        None \<Rightarrow> (Inl (FileNotFoundError p), log_event (EReadCsv p) w)
      | Some r \<Rightarrow> (r, log_event (EReadCsv p) w))"

text \<open>\<^verbatim>\<open>sqlite3.connect(p)\<close>, \<^verbatim>\<open>conn.cursor()\<close> and \<^verbatim>\<open>conn.close()\<close>.\<close>

definition connect :: "env \<Rightarrow> string \<Rightarrow> unit prog" where
  "connect env p w =
     (case connect_fault env p of
        Some e \<Rightarrow> (Inl e, log_event (EConnect p) w)
      | None \<Rightarrow> (Inr (), (log_event (EConnect p) w)\<lparr> conn := Opened \<rparr>))"

definition cursor :: "env \<Rightarrow> unit prog" where
  "cursor env w =
     (case db_fault env OpCursor of
        Some e \<Rightarrow> (Inl e, log_event (EDb OpCursor) w)
      | None \<Rightarrow> (Inr (), log_event (EDb OpCursor) w))"

definition close :: "unit prog" where
  "close w = (Inr (), (log_event EClose w)\<lparr> conn := Closed \<rparr>)"

text \<open>
  \<^verbatim>\<open>df.to_sql(name, conn, if_exists='replace', index=False)\<close>: whatever table stood under
  \<open>name\<close> is dropped and the table of the frame is created and filled in its place.  The
  value is the number of rows written.
\<close>

definition to_sql_replace :: "env \<Rightarrow> dataframe \<Rightarrow> string \<Rightarrow> nat prog" where
  "to_sql_replace env df name w =
     (case db_fault env (OpToSql name) of
        Some e \<Rightarrow> (Inl e, log_event (EDb (OpToSql name)) w)
      | None \<Rightarrow>
          (Inr (length (rows (table_of df))),
           (log_event (EDb (OpToSql name)) w)\<lparr> db := (db w)(name \<mapsto> table_of df) \<rparr>))"

text \<open>
  \<^verbatim>\<open>cursor.execute(sql)\<close> with the fetch that follows it, for the three shapes of query the
  script sends; \<open>answer\<close> is what the query returns on the store as it stands.
\<close>

definition execute :: "env \<Rightarrow> string \<Rightarrow> (database \<Rightarrow> error + 'a) \<Rightarrow> 'a prog" where
  "execute env sql answer w =
     (case db_fault env (OpExecute sql) of
        Some e \<Rightarrow> (Inl e, log_event (EDb (OpExecute sql)) w)
      | None \<Rightarrow> (answer (db w), log_event (EDb (OpExecute sql)) w))"

definition no_such_table :: "string \<Rightarrow> error" where
  "no_such_table name = LibraryError ''sqlite3.OperationalError'' (''no such table: '' @ name)"

definition select_count :: "env \<Rightarrow> string \<Rightarrow> nat prog" where
  "select_count env name =
     execute env (''SELECT COUNT(*) FROM '' @ name)
       (\<lambda>d. case d name of None \<Rightarrow> Inl (no_such_table name) | Some t \<Rightarrow> Inr (length (rows t)))"

definition pragma_table_info :: "env \<Rightarrow> string \<Rightarrow> sqlval list list prog" where
  "pragma_table_info env name =
     execute env (''PRAGMA table_info('' @ name @ '')'')
       (\<lambda>d. case d name of None \<Rightarrow> Inr [] | Some t \<Rightarrow> Inr (table_info_rows 0 (schema t)))"

definition select_limit3 :: "env \<Rightarrow> string \<Rightarrow> sqlval list list prog" where
  "select_limit3 env name =
     execute env (''SELECT * FROM '' @ name @ '' LIMIT 3'')
       (\<lambda>d. case d name of None \<Rightarrow> Inl (no_such_table name) | Some t \<Rightarrow> Inr (take 3 (rows t)))"

text \<open>\<^verbatim>\<open>for row in cursor.fetchall(): print(f"  {row}")\<close>.\<close>

fun print_rows :: "sqlval list list \<Rightarrow> unit prog" where
  "print_rows [] = ret ()"
| "print_rows (r # rs) = bnd (print [Lit ''  '', Val (VRow r)]) (\<lambda>_. print_rows rs)"

text \<open>
  \<^verbatim>\<open>try: body  except Exception as e: handler  finally: final\<close>.  The handler runs on an
  exception of the body; if it ends without raising, the exception is dropped.  The final
  block runs on every path, and the pending exception goes on after it.
\<close>

definition try_except_finally ::
  "unit prog \<Rightarrow> (error \<Rightarrow> unit prog) \<Rightarrow> unit prog \<Rightarrow> unit prog" where
  "try_except_finally body handler final w =
     (case body w of
        (Inr u, w1) \<Rightarrow> final w1
      | (Inl e, w1) \<Rightarrow>
          (case handler e w1 of
             (Inr u, w2) \<Rightarrow> final w2
           | (Inl e', w2) \<Rightarrow>
               (case final w2 of
                  (Inl e'', w3) \<Rightarrow> (Inl e'', w3)
                | (Inr u, w3) \<Rightarrow> (Inl e', w3))))"

section \<open>The procedure\<close>

definition db_path :: string where
  "db_path = ''football_data.db''"

definition receiving_csv :: string where
  "receiving_csv = ''Data/receiving.csv''"

definition roster_csv :: string where
  "roster_csv = ''Data/roster.csv''"

text \<open>Lines 21 to 24: both files are looked for, the receiving file first.\<close>

definition check_inputs :: "env \<Rightarrow> unit prog" where
  "check_inputs env =
     bnd (path_exists env receiving_csv) (\<lambda>found.
     bnd (if \<not> found then raise (FileNotFoundError (''CSV file not found: '' @ receiving_csv))
          else ret ()) (\<lambda>_.
     bnd (path_exists env roster_csv) (\<lambda>found.
     if \<not> found then raise (FileNotFoundError (''CSV file not found: '' @ roster_csv))
     else ret ())))"

text \<open>Lines 29 to 47: the receiving file is read, seven columns are cast, the frame is shown.\<close>

definition load_receiving :: "env \<Rightarrow> dataframe prog" where
  "load_receiving env =
     bnd (print [Lit ''Processing receiving.csv...'']) (\<lambda>_.
     bnd (read_csv env receiving_csv) (\<lambda>parsed.
     bnd (lift (astype_columns (int_of_str env) receiving_int_columns parsed)) (\<lambda>receiving_df.
     bnd (print [Lit ''Receiving data shape: '', Val (VShape (shape receiving_df))]) (\<lambda>_.
     bnd (print [Lit ''Receiving data types:'']) (\<lambda>_.
     bnd (print [Val (VDtypes (dtypes receiving_df))]) (\<lambda>_.
     bnd (print []) (\<lambda>_.
     ret receiving_df)))))))"

text \<open>Lines 50 to 63: the same for the roster file, with two columns cast.\<close>

definition load_roster :: "env \<Rightarrow> dataframe prog" where
  "load_roster env =
     bnd (print [Lit ''Processing roster.csv...'']) (\<lambda>_.
     bnd (read_csv env roster_csv) (\<lambda>parsed.
     bnd (lift (astype_columns (int_of_str env) roster_int_columns parsed)) (\<lambda>roster_df.
     bnd (print [Lit ''Roster data shape: '', Val (VShape (shape roster_df))]) (\<lambda>_.
     bnd (print [Lit ''Roster data types:'']) (\<lambda>_.
     bnd (print [Val (VDtypes (dtypes roster_df))]) (\<lambda>_.
     bnd (print []) (\<lambda>_.
     ret roster_df)))))))"

text \<open>Lines 21 to 63: everything before the store is touched.\<close>

definition load_tables :: "env \<Rightarrow> (dataframe \<times> dataframe) prog" where
  "load_tables env =
     bnd (check_inputs env) (\<lambda>_.
     bnd (print [Lit ''Reading CSV files...'']) (\<lambda>_.
     bnd (load_receiving env) (\<lambda>receiving_df.
     bnd (load_roster env) (\<lambda>roster_df.
     ret (receiving_df, roster_df)))))"

text \<open>Lines 70 to 113: the body of the \<^verbatim>\<open>try\<close> block.\<close>

definition store_and_verify :: "env \<Rightarrow> dataframe \<Rightarrow> dataframe \<Rightarrow> unit prog" where
  "store_and_verify env receiving_df roster_df =
     bnd (print [Lit ''Creating receiving table...'']) (\<lambda>_.
     bnd (to_sql_replace env receiving_df ''receiving'') (\<lambda>_.
     bnd (print [Lit ''Creating roster table...'']) (\<lambda>_.
     bnd (to_sql_replace env roster_df ''roster'') (\<lambda>_.
     bnd (cursor env) (\<lambda>_.
     bnd (select_count env ''receiving'') (\<lambda>receiving_count.
     bnd (print [Lit ''Receiving table created with '', Val (VNat receiving_count),
                 Lit '' records'']) (\<lambda>_.
     bnd (select_count env ''roster'') (\<lambda>roster_count.
     bnd (print [Lit ''Roster table created with '', Val (VNat roster_count),
                 Lit '' records'']) (\<lambda>_.
     bnd (print [Lit (CHR 0x0A # ''Receiving table schema:'')]) (\<lambda>_.
     bnd (pragma_table_info env ''receiving'') (\<lambda>fetched.
     bnd (print_rows fetched) (\<lambda>_.
     bnd (print [Lit (CHR 0x0A # ''Roster table schema:'')]) (\<lambda>_.
     bnd (pragma_table_info env ''roster'') (\<lambda>fetched.
     bnd (print_rows fetched) (\<lambda>_.
     bnd (print [Lit (CHR 0x0A # ''Sample receiving data:'')]) (\<lambda>_.
     bnd (select_limit3 env ''receiving'') (\<lambda>fetched.
     bnd (print_rows fetched) (\<lambda>_.
     bnd (print [Lit (CHR 0x0A # ''Sample roster data:'')]) (\<lambda>_.
     bnd (select_limit3 env ''roster'') (\<lambda>fetched.
     bnd (print_rows fetched) (\<lambda>_.
     print [Lit (CHR 0x0A # ''Database successfully created: '' @ db_path)])))))))))))))))))))))"

text \<open>Lines 115 to 117: the handler prints one line and raises the exception again.\<close>

definition error_line :: "error \<Rightarrow> fragment list" where
  "error_line e = [Lit ''Error creating database: '', Val (VErr e)]"

definition handler :: "error \<Rightarrow> unit prog" where
  "handler e = bnd (print (error_line e)) (\<lambda>_. raise e)"

text \<open>The whole of \<^verbatim>\<open>create_football_database\<close>.\<close>

definition create_football_database :: "env \<Rightarrow> unit prog" where
  "create_football_database env =
     bnd (load_tables env) (\<lambda>(receiving_df, roster_df).
     bnd (print [Lit (''Creating SQLite database: '' @ db_path)]) (\<lambda>_.
     bnd (connect env db_path) (\<lambda>_.
     try_except_finally (store_and_verify env receiving_df roster_df) handler close)))"

section \<open>Vocabulary of the proofs and sample inputs\<close>

text \<open>
  Three properties of a statement, used to carry facts through \<open>bnd\<close>: it leaves a
  component \<open>g\<close> of the world as it found it; it only adds to a list component, and
  what it adds satisfies \<open>P\<close>; its value does not depend on the world it starts in.
\<close>

definition keeps :: "(world \<Rightarrow> 'b) \<Rightarrow> 'a prog \<Rightarrow> bool" where
  "keeps g m = (\<forall>w. g (snd (m w)) = g w)"

definition appends :: "(world \<Rightarrow> 'b list) \<Rightarrow> ('b \<Rightarrow> bool) \<Rightarrow> 'a prog \<Rightarrow> bool" where
  "appends g P m = (\<forall>w. \<exists>xs. g (snd (m w)) = g w @ xs \<and> list_all P xs)"

definition stateless :: "'a prog \<Rightarrow> bool" where
  "stateless m = (\<forall>w w0. fst (m w) = fst (m w0))"

text \<open>The events of looking for a file and reading it, and the line the handler prints.\<close>

fun is_input_event :: "event \<Rightarrow> bool" where
  "is_input_event (EExists p) = True"
| "is_input_event (EReadCsv p) = True"
| "is_input_event (EConnect p) = False"
| "is_input_event (EDb op) = False"
| "is_input_event EClose = False"

fun is_error_line :: "fragment list \<Rightarrow> bool" where
  "is_error_line [Lit s, Val (VErr e)] = (s = ''Error creating database: '')"
| "is_error_line l = False"

text \<open>The store operations of the \<^verbatim>\<open>try\<close> block, in the order they are sent.\<close>

definition store_ops :: "db_op list" where
  "store_ops =
     [OpToSql ''receiving'', OpToSql ''roster'', OpCursor,
      OpExecute ''SELECT COUNT(*) FROM receiving'', OpExecute ''SELECT COUNT(*) FROM roster'',
      OpExecute ''PRAGMA table_info(receiving)'', OpExecute ''PRAGMA table_info(roster)'',
      OpExecute ''SELECT * FROM receiving LIMIT 3'', OpExecute ''SELECT * FROM roster LIMIT 3'']"

text \<open>
  Sample inputs.  The receiving frame is the single row
  \<^verbatim>\<open>#=10, GP=8, NO=0, YDS=0, AVG=, TD=0, Long=0, AVG/G=, PlayerID=501\<close>; the roster frame
  has a float column \<^verbatim>\<open>number\<close> (10.0 and 87.5) and a weight that is missing in one row.
\<close>

definition example_receiving :: dataframe where
  "example_receiving =
     [(''#'', IntS [10]), (''GP'', IntS [8]), (''NO'', IntS [0]), (''YDS'', IntS [0]),
      (''AVG'', FloatS [NaN]), (''TD'', IntS [0]), (''Long'', IntS [0]),
      (''AVG/G'', FloatS [NaN]), (''PlayerID'', IntS [501])]"

definition example_roster :: dataframe where
  "example_roster =
     [(''id'', IntS [501, 502]), (''name'', ObjectS [PStr ''A. End'', PStr ''B. Back'']),
      (''number'', FloatS [Finite 10 0, Finite 175 (- 1)]),
      (''height'', ObjectS [PStr ''6-4'', PStr ''5-11'']),
      (''weight'', FloatS [NaN, Finite 205 0])]"

definition example_roster_coerced :: dataframe where
  "example_roster_coerced =
     [(''id'', IntS [501, 502]), (''name'', ObjectS [PStr ''A. End'', PStr ''B. Back'']),
      (''number'', IntS [10, 87]),
      (''height'', ObjectS [PStr ''6-4'', PStr ''5-11'']),
      (''weight'', FloatS [NaN, Finite 205 0])]"

text \<open>An environment with both files and no fault, and variations of it.\<close>

definition example_env :: env where
  "example_env =
     \<lparr> fs = [receiving_csv \<mapsto> Inr example_receiving, roster_csv \<mapsto> Inr example_roster],
       int_of_str = (\<lambda>s. None),
       connect_fault = (\<lambda>p. None),
       db_fault = (\<lambda>op. None) \<rparr>"

definition no_tables :: database where
  "no_tables = Map.empty"

definition old_tables :: database where
  "old_tables =
     [''receiving'' \<mapsto> \<lparr> schema = [(''player'', ''TEXT'')], rows = [[SText ''X''], [SText ''Y'']] \<rparr>]"

definition locked :: error where
  "locked = LibraryError ''sqlite3.OperationalError'' ''database is locked''"

definition env_no_roster :: env where
  "env_no_roster = example_env\<lparr> fs := [receiving_csv \<mapsto> Inr example_receiving] \<rparr>"

definition env_no_files :: env where
  "env_no_files = example_env\<lparr> fs := Map.empty \<rparr>"

definition env_locked_write :: env where
  "env_locked_write =
     example_env\<lparr> db_fault := (\<lambda>op. if op = OpToSql ''roster'' then Some locked else None) \<rparr>"

definition env_locked_query :: env where
  "env_locked_query =
     example_env\<lparr> db_fault :=
       (\<lambda>op. if op = OpExecute ''SELECT COUNT(*) FROM roster'' then Some locked else None) \<rparr>"

definition env_missing_gp :: env where
  "env_missing_gp =
     example_env\<lparr> fs := [receiving_csv \<mapsto> Inr (setitem example_receiving ''GP'' (FloatS [NaN])),
                           roster_csv \<mapsto> Inr example_roster] \<rparr>"

definition env_bad_roster :: env where
  "env_bad_roster =
     example_env\<lparr> fs := [receiving_csv \<mapsto> Inr example_receiving,
                           roster_csv \<mapsto> Inl (LibraryError ''pandas.errors.ParserError''
                                                  ''Error tokenizing data'')] \<rparr>"

section \<open>Properties\<close>

subsection \<open>Sequencing\<close>

lemma keeps_ret: "keeps g (ret x)" by (simp add: keeps_def ret_def)
lemma keeps_raise: "keeps g (raise e)" by (simp add: keeps_def raise_def)
lemma keeps_lift: "keeps g (lift r)" by (simp add: keeps_def lift_def)

lemma keeps_bnd: "keeps g m \<Longrightarrow> (\<And>x. keeps g (f x)) \<Longrightarrow> keeps g (bnd m f)"
  unfolding keeps_def bnd_def
  by (auto split: prod.splits sum.splits) (metis snd_conv)+

lemma keeps_if: "keeps g a \<Longrightarrow> keeps g b \<Longrightarrow> keeps g (if c then a else b)"
  by simp

lemma appends_if: "appends g P a \<Longrightarrow> appends g P b \<Longrightarrow> appends g P (if c then a else b)"
  by simp

lemma stateless_if: "stateless a \<Longrightarrow> stateless b \<Longrightarrow> stateless (if c then a else b)"
  by simp

lemma appends_ret: "appends g P (ret x)" by (simp add: appends_def ret_def)
lemma appends_raise: "appends g P (raise e)" by (simp add: appends_def raise_def)
lemma appends_lift: "appends g P (lift r)" by (simp add: appends_def lift_def)

lemma appends_bnd:
  assumes "appends g P m" and "\<And>x. appends g P (f x)"
  shows "appends g P (bnd m f)"
  unfolding appends_def
proof
  fix w
  obtain r w1 where m: "m w = (r, w1)" by (cases "m w")
  from assms(1) m obtain xs where xs: "g w1 = g w @ xs" "list_all P xs"
    unfolding appends_def by (metis snd_conv)
  show "\<exists>xs. g (snd (bnd m f w)) = g w @ xs \<and> list_all P xs"
  proof (cases r)
    case (Inl e)
    with m xs show ?thesis by (auto simp: bnd_def)
  next
    case (Inr x)
    from assms(2)[of x] obtain ys where ys: "g (snd (f x w1)) = g w1 @ ys" "list_all P ys"
      unfolding appends_def by blast
    with m xs Inr show ?thesis by (auto simp: bnd_def)
  qed
qed

lemma stateless_ret: "stateless (ret x)" by (simp add: stateless_def ret_def)
lemma stateless_raise: "stateless (raise e)" by (simp add: stateless_def raise_def)
lemma stateless_lift: "stateless (lift r)" by (simp add: stateless_def lift_def)

lemma stateless_bnd:
  assumes "stateless m" and "\<And>x. stateless (f x)"
  shows "stateless (bnd m f)"
  unfolding stateless_def
proof (intro allI)
  fix w w0
  have "fst (m w) = fst (m w0)" using assms(1) by (simp add: stateless_def)
  moreover have "\<And>x a b. fst (f x a) = fst (f x b)" using assms(2) by (simp add: stateless_def)
  ultimately show "fst (bnd m f w) = fst (bnd m f w0)"
    by (cases "m w"; cases "m w0") (auto simp: bnd_def split: sum.splits)
qed

subsection \<open>Primitive statements\<close>

lemma print_keeps_db: "keeps db (print l)" by (simp add: keeps_def print_def)
lemma print_keeps_conn: "keeps conn (print l)" by (simp add: keeps_def print_def)
lemma print_appends_events: "appends events P (print l)" by (simp add: appends_def print_def)
lemma print_appends_stdout: "P l \<Longrightarrow> appends stdout P (print l)" by (simp add: appends_def print_def)
lemma print_stateless: "stateless (print l)" by (simp add: stateless_def print_def)

lemma path_exists_keeps_db: "keeps db (path_exists env p)"
  by (simp add: keeps_def path_exists_def log_event_def)
lemma path_exists_keeps_conn: "keeps conn (path_exists env p)"
  by (simp add: keeps_def path_exists_def log_event_def)
lemma path_exists_appends_stdout: "appends stdout P (path_exists env p)"
  by (simp add: appends_def path_exists_def log_event_def)
lemma path_exists_appends_events: "appends events is_input_event (path_exists env p)"
  by (simp add: appends_def path_exists_def log_event_def)
lemma path_exists_stateless: "stateless (path_exists env p)"
  by (simp add: stateless_def path_exists_def)

lemma read_csv_keeps_db: "keeps db (read_csv env p)"
  by (simp add: keeps_def read_csv_def log_event_def split: option.splits)
lemma read_csv_keeps_conn: "keeps conn (read_csv env p)"
  by (simp add: keeps_def read_csv_def log_event_def split: option.splits)
lemma read_csv_appends_stdout: "appends stdout P (read_csv env p)"
  by (simp add: appends_def read_csv_def log_event_def split: option.splits)
lemma read_csv_appends_events: "appends events is_input_event (read_csv env p)"
  by (simp add: appends_def read_csv_def log_event_def split: option.splits)
lemma read_csv_stateless: "stateless (read_csv env p)"
  by (simp add: stateless_def read_csv_def split: option.splits)

lemmas quiet_intros =
  keeps_bnd keeps_ret keeps_raise keeps_lift keeps_if
  print_keeps_db print_keeps_conn path_exists_keeps_db path_exists_keeps_conn
  read_csv_keeps_db read_csv_keeps_conn

lemma load_tables_keeps_db: "keeps db (load_tables env)"
  unfolding load_tables_def check_inputs_def load_receiving_def load_roster_def
  by (intro quiet_intros)

lemma load_tables_keeps_conn: "keeps conn (load_tables env)"
  unfolding load_tables_def check_inputs_def load_receiving_def load_roster_def
  by (intro quiet_intros)

lemma load_tables_events: "appends events is_input_event (load_tables env)"
  unfolding load_tables_def check_inputs_def load_receiving_def load_roster_def
  by (intro appends_bnd appends_if appends_ret appends_raise appends_lift print_appends_events
        path_exists_appends_events read_csv_appends_events)

lemma load_tables_stdout: "appends stdout (\<lambda>l. \<not> is_error_line l) (load_tables env)"
  unfolding load_tables_def check_inputs_def load_receiving_def load_roster_def
  by (intro appends_bnd appends_if appends_ret appends_raise appends_lift print_appends_stdout
        path_exists_appends_stdout read_csv_appends_stdout) simp_all

lemma load_tables_stateless: "stateless (load_tables env)"
  unfolding load_tables_def check_inputs_def load_receiving_def load_roster_def
  by (intro stateless_bnd stateless_if stateless_ret stateless_raise stateless_lift print_stateless
        path_exists_stateless read_csv_stateless)

subsection \<open>Columns\<close>



lemma getitem_setitem_same: "getitem (setitem df c s') c = Inr s'"
  by (induction df) auto

lemma getitem_setitem_other: "c' \<noteq> c \<Longrightarrow> getitem (setitem df c s') c' = getitem df c'"
  by (induction df) auto




lemma astype_int64_IntS: "astype_int64 f s = Inr s' \<Longrightarrow> \<exists>xs. s' = IntS xs"
  by (cases s) (auto split: if_splits sum.splits)

lemma ints_of_pyobjs_missing: "PFloat NaN \<in> set xs \<Longrightarrow> \<exists>e. ints_of_pyobjs f xs = Inl e"
  by (induction xs) (auto split: sum.splits)

lemma astype_int64_missing: "has_missing s \<Longrightarrow> \<exists>e. astype_int64 f s = Inl e"
proof (cases s)
  case (FloatS xs)
  assume "has_missing s"
  with FloatS have "NaN \<in> set xs" by simp
  then have "\<not> list_all is_finite xs" by (auto simp: list_all_iff intro!: bexI[of _ NaN])
  with FloatS show ?thesis by simp
next
  case (ObjectS xs)
  assume "has_missing s"
  with ObjectS have "PFloat NaN \<in> set xs" by simp
  from ints_of_pyobjs_missing[OF this, of f] ObjectS show ?thesis by auto
qed simp_all

lemma astype_column_Inr:
  assumes "astype_column f c df = Inr df'"
  obtains s s' where "getitem df c = Inr s" "astype_int64 f s = Inr s'" "df' = setitem df c s'"
  using assms by (auto simp: astype_column_def split: sum.splits)



lemma astype_column_other:
  "astype_column f c df = Inr df' \<Longrightarrow> c' \<noteq> c \<Longrightarrow> getitem df' c' = getitem df c'"
  by (erule astype_column_Inr) (simp add: getitem_setitem_other)

lemma astype_column_same:
  "astype_column f c df = Inr df' \<Longrightarrow> \<exists>xs. getitem df' c = Inr (IntS xs)"
  by (erule astype_column_Inr) (auto simp: getitem_setitem_same dest: astype_int64_IntS)

lemma astype_column_int_stays:
  assumes "astype_column f c df = Inr df'" and "getitem df c' = Inr (IntS xs)"
  shows "\<exists>ys. getitem df' c' = Inr (IntS ys)"
proof (cases "c' = c")
  case True
  with assms(1) show ?thesis by (auto dest: astype_column_same)
next
  case False
  with assms show ?thesis by (simp add: astype_column_other)
qed



lemma astype_columns_other:
  "astype_columns f cols df = Inr df' \<Longrightarrow> c \<notin> set cols \<Longrightarrow> getitem df' c = getitem df c"
  by (induction cols arbitrary: df) (auto split: sum.splits dest: astype_column_other)

lemma astype_columns_int_stays:
  "astype_columns f cols df = Inr df' \<Longrightarrow> getitem df c = Inr (IntS xs) \<Longrightarrow>
   \<exists>ys. getitem df' c = Inr (IntS ys)"
proof (induction cols arbitrary: df xs)
  case Nil
  then show ?case by simp
next
  case (Cons c0 cs)
  from Cons.prems(1) obtain df1 where
    step: "astype_column f c0 df = Inr df1" and rest: "astype_columns f cs df1 = Inr df'"
    by (auto split: sum.splits)
  from astype_column_int_stays[OF step Cons.prems(2)] obtain ys where
    "getitem df1 c = Inr (IntS ys)" by blast
  from Cons.IH[OF rest this] show ?case .
qed

lemma astype_columns_ints:
  "astype_columns f cols df = Inr df' \<Longrightarrow> c \<in> set cols \<Longrightarrow>
   \<exists>xs. getitem df' c = Inr (IntS xs)"
proof (induction cols arbitrary: df)
  case Nil
  then show ?case by simp
next
  case (Cons c0 cs)
  from Cons.prems(1) obtain df1 where
    step: "astype_column f c0 df = Inr df1" and rest: "astype_columns f cs df1 = Inr df'"
    by (auto split: sum.splits)
  show ?case
  proof (cases "c = c0")
    case True
    from astype_column_same[OF step] True obtain xs where "getitem df1 c = Inr (IntS xs)"
      by blast
    from astype_columns_int_stays[OF rest this] show ?thesis .
  next
    case False
    with Cons.prems(2) have "c \<in> set cs" by simp
    from Cons.IH[OF rest this] show ?thesis .
  qed
qed

lemma astype_columns_missing:
  "getitem df c = Inr s \<Longrightarrow> has_missing s \<Longrightarrow> c \<in> set cols \<Longrightarrow>
   \<exists>e. astype_columns f cols df = Inl e"
proof (induction cols arbitrary: df)
  case Nil
  then show ?case by simp
next
  case (Cons c0 cs)
  show ?case
  proof (cases "astype_column f c0 df")
    case (Inl e)
    then show ?thesis by simp
  next
    case (Inr df1)
    have ne: "c \<noteq> c0"
    proof
      assume "c = c0"
      with Inr Cons.prems(1) have "\<exists>s'. astype_int64 f s = Inr s'"
        by (auto elim: astype_column_Inr)
      with astype_int64_missing[OF Cons.prems(2), of f] show False by auto
    qed
    with Cons.prems(3) have "c \<in> set cs" by simp
    moreover from Inr ne Cons.prems(1) have "getitem df1 c = Inr s"
      by (simp add: astype_column_other)
    ultimately obtain e where "astype_columns f cs df1 = Inl e"
      using Cons.IH Cons.prems(2) by blast
    with Inr show ?thesis by simp
  qed
qed

subsection \<open>Loading\<close>

lemma load_tables_Inr:
  assumes "load_tables env w = (Inr (r, ro), w')"
  shows "\<exists>pr pro. fs env receiving_csv = Some (Inr pr) \<and> fs env roster_csv = Some (Inr pro) \<and>
           astype_columns (int_of_str env) receiving_int_columns pr = Inr r \<and>
           astype_columns (int_of_str env) roster_int_columns pro = Inr ro"
  using assms
  unfolding load_tables_def check_inputs_def load_receiving_def load_roster_def
  by (auto simp: bnd_def print_def read_csv_def lift_def ret_def raise_def path_exists_def
      split: prod.splits sum.splits option.splits if_splits)

lemma load_tables_value:
  assumes "fs env receiving_csv = Some (Inr pr)" "fs env roster_csv = Some (Inr pro)"
    "astype_columns (int_of_str env) receiving_int_columns pr = Inr r"
    "astype_columns (int_of_str env) roster_int_columns pro = Inr ro"
  shows "fst (load_tables env w) = Inr (r, ro)"
  using assms
  unfolding load_tables_def check_inputs_def load_receiving_def load_roster_def
  by (simp add: bnd_def print_def read_csv_def lift_def ret_def raise_def path_exists_def)

lemma load_tables_receiving_fails:
  assumes "fs env receiving_csv = Some (Inr pr)"
    "astype_columns (int_of_str env) receiving_int_columns pr = Inl e"
  shows "\<exists>e' w'. load_tables env w = (Inl e', w')"
  using assms
  unfolding load_tables_def check_inputs_def load_receiving_def load_roster_def
  by (simp add: bnd_def print_def read_csv_def lift_def ret_def raise_def path_exists_def)

lemma load_tables_roster_fails:
  assumes "fs env roster_csv = Some (Inr pro)"
    "astype_columns (int_of_str env) roster_int_columns pro = Inl e"
  shows "\<exists>e' w'. load_tables env w = (Inl e', w')"
  using assms
  unfolding load_tables_def check_inputs_def load_receiving_def load_roster_def
  by (auto simp: bnd_def print_def read_csv_def lift_def ret_def raise_def path_exists_def
      split: prod.splits sum.splits option.splits)

lemma load_tables_quiet:
  assumes "load_tables env (init_world d) = (r, w1)"
  shows "db w1 = d" and "conn w1 = NoConn" and "list_all is_input_event (events w1)"
    and "list_all (\<lambda>l. \<not> is_error_line l) (stdout w1)"
proof -
  from load_tables_keeps_db[of env] assms show "db w1 = d"
    unfolding keeps_def by (metis snd_conv init_world_def world.select_convs(4))
  from load_tables_keeps_conn[of env] assms show "conn w1 = NoConn"
    unfolding keeps_def by (metis snd_conv init_world_def world.select_convs(3))
  from load_tables_events[of env] assms show "list_all is_input_event (events w1)"
    unfolding appends_def by (metis snd_conv init_world_def world.select_convs(2) append_Nil)
  from load_tables_stdout[of env] assms show "list_all (\<lambda>l. \<not> is_error_line l) (stdout w1)"
    unfolding appends_def by (metis snd_conv init_world_def world.select_convs(1) append_Nil)
qed

subsection \<open>The try block\<close>

lemma print_rows_eq:
  "print_rows rs w = (Inr (), w\<lparr> stdout := stdout w @ map (\<lambda>r. [Lit ''  '', Val (VRow r)]) rs \<rparr>)"
  by (induction rs arbitrary: w) (simp_all add: ret_def bnd_def print_def)

lemma try_close:
  assumes "try_except_finally body h close w = (r, w')"
  shows "conn w' = Closed" and "last (events w') = EClose"
  using assms
  by (auto simp: try_except_finally_def close_def log_event_def split: prod.splits sum.splits)

lemma try_handler_Inl:
  assumes "try_except_finally body handler close w = (Inl e, w')"
  shows "stdout w' \<noteq> [] \<and> last (stdout w') = error_line e"
  using assms
  by (auto simp: try_except_finally_def close_def log_event_def handler_def bnd_def print_def
      raise_def split: prod.splits sum.splits)

lemma try_handler_Inr:
  assumes "try_except_finally body handler close w = (Inr u, w')"
  shows "\<exists>w1. body w = (Inr (), w1) \<and> db w' = db w1"
  using assms
  by (auto simp: try_except_finally_def close_def log_event_def handler_def bnd_def print_def
      raise_def split: prod.splits sum.splits)

lemma try_body_Inr:
  assumes "body w = (Inr (), w1)"
  shows "\<exists>w'. try_except_finally body handler close w = (Inr (), w') \<and> db w' = db w1"
  using assms
  by (auto simp: try_except_finally_def close_def log_event_def)

lemmas store_defs =
  store_and_verify_def bnd_def print_def to_sql_replace_def cursor_def select_count_def
  pragma_table_info_def select_limit3_def execute_def log_event_def print_rows_eq

lemma store_and_verify_ok:
  assumes "\<forall>op\<in>set store_ops. db_fault env op = None"
  shows "\<exists>w'. store_and_verify env r ro w = (Inr (), w')"
  using assms by (simp add: store_defs store_ops_def)

lemma store_and_verify_Inr:
  assumes "store_and_verify env r ro w = (Inr (), w')"
  shows "(\<forall>op\<in>set store_ops. db_fault env op = None) \<and>
         db w' = (db w)(''receiving'' \<mapsto> table_of r, ''roster'' \<mapsto> table_of ro)"
  using assms
  by (simp add: store_defs store_ops_def split: option.splits) auto

lemmas example_defs =
  example_env_def env_no_roster_def env_no_files_def env_locked_write_def env_locked_query_def
  env_missing_gp_def env_bad_roster_def receiving_csv_def roster_csv_def db_path_def
  no_tables_def old_tables_def

lemmas cast_defs =
  astype_column_def receiving_int_columns_def roster_int_columns_def
  float_to_int64_def trunc_def int64_min_def int64_max_def

lemmas run_defs =
  create_football_database_def load_tables_def check_inputs_def load_receiving_def
  load_roster_def store_defs try_except_finally_def handler_def connect_def close_def
  ret_def raise_def lift_def path_exists_def read_csv_def init_world_def

lemma example_receiving_cast:
  "astype_columns f receiving_int_columns example_receiving = Inr example_receiving"
  by (simp add: cast_defs example_receiving_def)

lemma example_roster_cast:
  "astype_columns f roster_int_columns example_roster = Inr example_roster_coerced"
  by (simp add: cast_defs example_roster_def example_roster_coerced_def)

lemma example_run_ok:
  "fst (create_football_database example_env (init_world d)) = Inr ()"
  by (simp add: run_defs example_defs example_receiving_cast example_roster_cast)

lemma locked_write_run:
  "fst (create_football_database env_locked_write (init_world d)) = Inl locked"
  "conn (snd (create_football_database env_locked_write (init_world d))) = Closed"
  by (simp_all add: run_defs example_defs example_receiving_cast example_roster_cast)

lemma locked_query_run:
  "fst (create_football_database env_locked_query (init_world d)) = Inl locked"
  "EConnect db_path \<in> set (events (snd (create_football_database env_locked_query (init_world d))))"
  by (simp_all add: run_defs example_defs example_receiving_cast example_roster_cast)

lemma bad_roster_run:
  "fst (create_football_database env_bad_roster (init_world d))
     = Inl (LibraryError ''pandas.errors.ParserError'' ''Error tokenizing data'')"
  "conn (snd (create_football_database env_bad_roster (init_world d))) = NoConn"
  by (simp_all add: run_defs example_defs example_receiving_cast)

lemma is_error_line_error_line: "is_error_line (error_line e)"
  by (simp add: error_line_def)

lemma run_cases:
  assumes run: "create_football_database env (init_world d) = (r, w')"
  obtains
    (load_fails) e where "load_tables env (init_world d) = (Inl e, w')" "r = Inl e"
  | (connect_fails) dfs w1 e where
      "load_tables env (init_world d) = (Inr dfs, w1)" "connect_fault env db_path = Some e"
      "r = Inl e"
      "w' = log_event (EConnect db_path)
              (w1\<lparr> stdout := stdout w1 @ [[Lit (''Creating SQLite database: '' @ db_path)]] \<rparr>)"
  | (stores) receiving_df roster_df w1 where
      "load_tables env (init_world d) = (Inr (receiving_df, roster_df), w1)"
      "connect_fault env db_path = None"
      "try_except_finally (store_and_verify env receiving_df roster_df) handler close
         ((log_event (EConnect db_path)
            (w1\<lparr> stdout := stdout w1 @ [[Lit (''Creating SQLite database: '' @ db_path)]] \<rparr>))
          \<lparr> conn := Opened \<rparr>) = (r, w')"
proof (cases "load_tables env (init_world d)")
  case (Pair res w1)
  show ?thesis
  proof (cases res)
    case (Inl e)
    with Pair run have "r = Inl e" "w' = w1"
      by (simp_all add: create_football_database_def bnd_def)
    with Pair Inl show ?thesis by (intro load_fails[of e]) simp_all
  next
    case (Inr dfs)
    obtain receiving_df roster_df where dfs: "dfs = (receiving_df, roster_df)" by (cases dfs)
    show ?thesis
    proof (cases "connect_fault env db_path")
      case None
      with Pair Inr dfs run show ?thesis
        by (intro stores[of receiving_df roster_df w1])
           (simp_all add: create_football_database_def bnd_def print_def connect_def)
    next
      case (Some e)
      with Pair Inr dfs run show ?thesis
        by (intro connect_fails[of dfs w1 e])
           (auto simp add: create_football_database_def bnd_def print_def connect_def)
    qed
  qed
qed

subsection \<open>Successful runs\<close>

lemma run_Inr:
  assumes "create_football_database env (init_world d) = (Inr (), w')"
  shows "\<exists>receiving_df roster_df w1.
           load_tables env (init_world d) = (Inr (receiving_df, roster_df), w1) \<and>
           connect_fault env db_path = None \<and>
           (\<forall>op\<in>set store_ops. db_fault env op = None) \<and>
           db w' = d(''receiving'' \<mapsto> table_of receiving_df, ''roster'' \<mapsto> table_of roster_df)"
  using assms
proof (cases rule: run_cases)
  case (stores receiving_df roster_df w1)
  from try_handler_Inr[OF stores(3)] obtain w2 where
    body: "store_and_verify env receiving_df roster_df
             ((log_event (EConnect db_path)
                (w1\<lparr> stdout := stdout w1 @ [[Lit (''Creating SQLite database: '' @ db_path)]] \<rparr>))
              \<lparr> conn := Opened \<rparr>) = (Inr (), w2)"
    and db: "db w' = db w2" by blast
  from load_tables_quiet(1)[OF stores(1)] have "db w1 = d" .
  with store_and_verify_Inr[OF body] db stores(1,2) show ?thesis
    by (simp add: log_event_def)
qed simp_all

lemma run_ok:
  assumes "load_tables env (init_world d) = (Inr (receiving_df, roster_df), w1)"
    and "connect_fault env db_path = None"
    and "\<forall>op\<in>set store_ops. db_fault env op = None"
  shows "\<exists>w'. create_football_database env (init_world d) = (Inr (), w')"
proof -
  let ?w = "(log_event (EConnect db_path)
                (w1\<lparr> stdout := stdout w1 @ [[Lit (''Creating SQLite database: '' @ db_path)]] \<rparr>))
              \<lparr> conn := Opened \<rparr>"
  from store_and_verify_ok[OF assms(3)] obtain w2 where
    "store_and_verify env receiving_df roster_df ?w = (Inr (), w2)" by blast
  from try_body_Inr[of "store_and_verify env receiving_df roster_df" ?w w2, OF this]
  obtain w' where
    "try_except_finally (store_and_verify env receiving_df roster_df) handler close ?w
       = (Inr (), w')" by blast
  with assms(1,2) show ?thesis
    by (simp add: create_football_database_def bnd_def print_def connect_def)
qed

lemma load_tables_any_store:
  "fst (load_tables env (init_world d0)) = fst (load_tables env (init_world d))"
  using load_tables_stateless[of env] by (simp add: stateless_def)

subsection \<open>Claims\<close>

text \<open>
  Claim C1, amended.  When the run ends in an error, the line
  \<^verbatim>\<open>Error creating database: <e>\<close> is the last thing printed exactly when the error came
  out of the \<^verbatim>\<open>try\<close> block (a table write or a verification query failed; the
  connection was opened and is now closed).  When the error came earlier (a missing input
  file, a parse or coercion failure, a failed connect), no such line is printed at all:
  the error propagates with only the progress lines before it.
\<close>

theorem error_line_only_inside_try:
  assumes "create_football_database env (init_world d) = (Inl e, w')"
  shows "(conn w' = Closed \<longrightarrow> stdout w' \<noteq> [] \<and> last (stdout w') = error_line e) \<and>
         (conn w' \<noteq> Closed \<longrightarrow> (\<forall>e'. error_line e' \<notin> set (stdout w')))"
  using assms
proof (cases rule: run_cases)
  case (load_fails e0)
  from load_tables_quiet[OF load_fails(1)]
  have "conn w' = NoConn" and "list_all (\<lambda>l. \<not> is_error_line l) (stdout w')" by simp_all
  then show ?thesis
    using is_error_line_error_line by (auto simp: list_all_iff)
next
  case (connect_fails dfs w1 e0)
  from load_tables_quiet[OF connect_fails(1)]
  have "conn w1 = NoConn" and "list_all (\<lambda>l. \<not> is_error_line l) (stdout w1)" by simp_all
  with connect_fails(4) show ?thesis
    using is_error_line_error_line
    by (auto simp: list_all_iff log_event_def error_line_def)
next
  case (stores receiving_df roster_df w1)
  from try_close(1)[OF stores(3)] try_handler_Inl[OF stores(3)] show ?thesis by simp
qed

text \<open>
  Claim C1, amended, on a run whose roster write finds the store locked, and on a run whose
  roster file the parser rejects.
\<close>

theorem error_line_only_inside_try_witness:
  "last (stdout (snd (create_football_database env_locked_write (init_world no_tables))))
     = error_line locked \<and>
   error_line (LibraryError ''pandas.errors.ParserError'' ''Error tokenizing data'')
     \<notin> set (stdout (snd (create_football_database env_bad_roster (init_world no_tables))))"
proof -
  have "create_football_database env_locked_write (init_world no_tables)
          = (Inl locked, snd (create_football_database env_locked_write (init_world no_tables)))"
    using locked_write_run(1)[of no_tables] by (simp add: prod_eq_iff)
  from error_line_only_inside_try[OF this] locked_write_run(2)[of no_tables]
  have inside: "last (stdout (snd (create_football_database env_locked_write
      (init_world no_tables)))) = error_line locked"
    by simp
  have "create_football_database env_bad_roster (init_world no_tables)
          = (Inl (LibraryError ''pandas.errors.ParserError'' ''Error tokenizing data''),
             snd (create_football_database env_bad_roster (init_world no_tables)))"
    using bad_roster_run(1)[of no_tables] by (simp add: prod_eq_iff)
  from error_line_only_inside_try[OF this] bad_roster_run(2)[of no_tables]
  have "error_line (LibraryError ''pandas.errors.ParserError'' ''Error tokenizing data'')
     \<notin> set (stdout (snd (create_football_database env_bad_roster (init_world no_tables))))"
    by simp
  with inside show ?thesis by simp
qed

text \<open>
  Claim C1 as stated fails: with the roster file missing the run ends in
  \<^verbatim>\<open>FileNotFoundError\<close> and has printed nothing.
\<close>

theorem missing_file_prints_nothing:
  "fst (create_football_database env_no_roster (init_world no_tables))
     = Inl (FileNotFoundError ''CSV file not found: Data/roster.csv'') \<and>
   stdout (snd (create_football_database env_no_roster (init_world no_tables))) = []"
  by (simp add: run_defs example_defs)

text \<open>
  Claim C2.  If \<^verbatim>\<open>Data/receiving.csv\<close> does not exist, the run fails with
  \<^verbatim>\<open>FileNotFoundError\<close> naming that path after the single existence check; if it
  exists and \<^verbatim>\<open>Data/roster.csv\<close> does not, the run fails naming the roster path after
  the two existence checks.  In both cases the world is otherwise as at the start: no file
  has been read, nothing has been printed, the store is untouched.
\<close>

theorem missing_input_reported_before_parsing:
  "(fs env receiving_csv = None \<longrightarrow>
      create_football_database env (init_world d)
        = (Inl (FileNotFoundError (''CSV file not found: '' @ receiving_csv)),
           (init_world d)\<lparr> events := [EExists receiving_csv] \<rparr>)) \<and>
   (fs env receiving_csv \<noteq> None \<and> fs env roster_csv = None \<longrightarrow>
      create_football_database env (init_world d)
        = (Inl (FileNotFoundError (''CSV file not found: '' @ roster_csv)),
           (init_world d)\<lparr> events := [EExists receiving_csv, EExists roster_csv] \<rparr>))"
  by (auto simp: create_football_database_def load_tables_def check_inputs_def bnd_def
      path_exists_def raise_def ret_def log_event_def init_world_def)

text \<open>
  Claim C2 with neither file present, where the receiving path is the one reported, and
  with only the roster file missing.
\<close>

theorem missing_input_reported_before_parsing_witness:
  "create_football_database env_no_files (init_world old_tables)
     = (Inl (FileNotFoundError ''CSV file not found: Data/receiving.csv''),
        (init_world old_tables)\<lparr> events := [EExists ''Data/receiving.csv''] \<rparr>) \<and>
   create_football_database env_no_roster (init_world old_tables)
     = (Inl (FileNotFoundError ''CSV file not found: Data/roster.csv''),
        (init_world old_tables)
          \<lparr> events := [EExists ''Data/receiving.csv'', EExists ''Data/roster.csv''] \<rparr>)"
proof -
  have "fs env_no_files receiving_csv = None" by (simp add: example_defs)
  with missing_input_reported_before_parsing[of env_no_files old_tables]
  have first: "create_football_database env_no_files (init_world old_tables)
     = (Inl (FileNotFoundError ''CSV file not found: Data/receiving.csv''),
        (init_world old_tables)\<lparr> events := [EExists ''Data/receiving.csv''] \<rparr>)"
    by (simp add: receiving_csv_def)
  have "fs env_no_roster receiving_csv \<noteq> None \<and> fs env_no_roster roster_csv = None"
    by (simp add: example_defs)
  with missing_input_reported_before_parsing[of env_no_roster old_tables]
  have "create_football_database env_no_roster (init_world old_tables)
     = (Inl (FileNotFoundError ''CSV file not found: Data/roster.csv''),
        (init_world old_tables)
          \<lparr> events := [EExists ''Data/receiving.csv'', EExists ''Data/roster.csv''] \<rparr>)"
    by (simp add: receiving_csv_def roster_csv_def)
  with first show ?thesis by simp
qed



text \<open>
  Claim C4.  When both frames have been loaded and cast, each of the receiving columns
  \<^verbatim>\<open>#, GP, NO, YDS, TD, Long, PlayerID\<close> and of the roster columns \<^verbatim>\<open>id, number\<close> is
  an int64 column, which has no missing cell, and the roster column \<^verbatim>\<open>height\<close> is the
  column that was parsed.
\<close>

theorem coerced_columns_hold_integers:
  assumes "load_tables env w = (Inr (receiving_df, roster_df), w')"
  shows "(\<forall>c\<in>set receiving_int_columns.
            \<exists>s. getitem receiving_df c = Inr s \<and> dtype_of s = DInt64 \<and> \<not> has_missing s) \<and>
         (\<forall>c\<in>set roster_int_columns.
            \<exists>s. getitem roster_df c = Inr s \<and> dtype_of s = DInt64 \<and> \<not> has_missing s) \<and>
         (\<exists>parsed. fs env roster_csv = Some (Inr parsed) \<and>
            getitem roster_df ''height'' = getitem parsed ''height'')"
proof -
  from load_tables_Inr[OF assms] obtain pr pro where
    files: "fs env roster_csv = Some (Inr pro)" and
    r: "astype_columns (int_of_str env) receiving_int_columns pr = Inr receiving_df" and
    ro: "astype_columns (int_of_str env) roster_int_columns pro = Inr roster_df"
    by blast
  have "\<exists>s. getitem receiving_df c = Inr s \<and> dtype_of s = DInt64 \<and> \<not> has_missing s"
    if "c \<in> set receiving_int_columns" for c
    using astype_columns_ints[OF r that] by auto
  moreover have "\<exists>s. getitem roster_df c = Inr s \<and> dtype_of s = DInt64 \<and> \<not> has_missing s"
    if "c \<in> set roster_int_columns" for c
    using astype_columns_ints[OF ro that] by auto
  moreover have "getitem roster_df ''height'' = getitem pro ''height''"
    using astype_columns_other[OF ro] by (simp add: roster_int_columns_def)
  ultimately show ?thesis using files by blast
qed

text \<open>Claim C4 on the sample files: 87.5 has become 87, and the heights are as parsed.\<close>

theorem coerced_columns_hold_integers_witness:
  "getitem example_roster_coerced ''number'' = Inr (IntS [10, 87]) \<and>
   getitem example_roster_coerced ''height'' = getitem example_roster ''height'' \<and>
   (\<exists>s. getitem example_receiving ''PlayerID'' = Inr s \<and> dtype_of s = DInt64 \<and>
      \<not> has_missing s)"
proof -
  have "fst (load_tables example_env (init_world no_tables))
          = Inr (example_receiving, example_roster_coerced)"
    by (rule load_tables_value[where pr = example_receiving and pro = example_roster])
       (simp_all add: example_defs example_receiving_cast example_roster_cast)
  then have "load_tables example_env (init_world no_tables)
          = (Inr (example_receiving, example_roster_coerced),
             snd (load_tables example_env (init_world no_tables)))"
    by (simp add: prod_eq_iff)
  from coerced_columns_hold_integers[OF this] show ?thesis
    by (simp add: example_roster_coerced_def example_roster_def receiving_int_columns_def)
qed

text \<open>
  Claim C5.  If a cast column of a parsed frame has a missing cell, any run of casts that
  names the column raises an error, and the whole run ends in an error with the store as it
  was: no connection was opened and no store operation was sent, so nothing was written in
  place of the missing value.
\<close>

theorem missing_value_fails_the_run:
  assumes "getitem df c = Inr s" and "has_missing s"
    and "(fs env receiving_csv = Some (Inr df) \<and> c \<in> set receiving_int_columns) \<or>
         (fs env roster_csv = Some (Inr df) \<and> c \<in> set roster_int_columns)"
  shows "(\<forall>cols. c \<in> set cols \<longrightarrow> (\<exists>e. astype_columns (int_of_str env) cols df = Inl e)) \<and>
         (\<exists>e w'. create_football_database env (init_world d) = (Inl e, w') \<and>
            db w' = d \<and> conn w' = NoConn \<and> (\<forall>op. EDb op \<notin> set (events w')))"
proof -
  have cast: "\<exists>e. astype_columns (int_of_str env) cols df = Inl e" if "c \<in> set cols" for cols
    using astype_columns_missing[OF assms(1,2) that] .
  from assms(3) have "\<exists>e w'. load_tables env (init_world d) = (Inl e, w')"
  proof
    assume a: "fs env receiving_csv = Some (Inr df) \<and> c \<in> set receiving_int_columns"
    with cast obtain e where
      "astype_columns (int_of_str env) receiving_int_columns df = Inl e" by blast
    with a show ?thesis using load_tables_receiving_fails by blast
  next
    assume a: "fs env roster_csv = Some (Inr df) \<and> c \<in> set roster_int_columns"
    with cast obtain e where
      "astype_columns (int_of_str env) roster_int_columns df = Inl e" by blast
    with a show ?thesis using load_tables_roster_fails by blast
  qed
  then obtain e w' where l: "load_tables env (init_world d) = (Inl e, w')" by blast
  then have "create_football_database env (init_world d) = (Inl e, w')"
    by (simp add: create_football_database_def bnd_def)
  moreover from load_tables_quiet[OF l]
  have "db w' = d" "conn w' = NoConn" "\<forall>op. EDb op \<notin> set (events w')"
    by (auto simp: list_all_iff)
  ultimately show ?thesis using cast by blast
qed

text \<open>Claim C5 on a receiving file whose \<^verbatim>\<open>GP\<close> field is empty.\<close>

theorem missing_value_fails_the_run_witness:
  "\<exists>e w'. create_football_database env_missing_gp (init_world old_tables) = (Inl e, w') \<and>
     db w' = old_tables \<and> conn w' = NoConn"
proof -
  have "getitem (setitem example_receiving ''GP'' (FloatS [NaN])) ''GP'' = Inr (FloatS [NaN])"
    by (simp add: example_receiving_def)
  moreover have "has_missing (FloatS [NaN])" by simp
  moreover have "fs env_missing_gp receiving_csv
      = Some (Inr (setitem example_receiving ''GP'' (FloatS [NaN]))) \<and>
      ''GP'' \<in> set receiving_int_columns"
    by (simp add: example_defs receiving_int_columns_def)
  ultimately show ?thesis
    using missing_value_fails_the_run[of _ "''GP''" "FloatS [NaN]" env_missing_gp old_tables]
    by blast
qed

text \<open>
  Claim C6.  A column that is not named among the casts is, after a successful run of
  casts, the column it was.  In particular the sample receiving row is cast successfully
  with \<^verbatim>\<open>AVG\<close> and \<^verbatim>\<open>AVG/G\<close> still missing, and is stored with \<^verbatim>\<open>NULL\<close>, not
  zero, in those two places.
\<close>

theorem unmapped_columns_pass_through:
  "(astype_columns pyint cols df = Inr df' \<and> c \<notin> set cols \<longrightarrow> getitem df' c = getitem df c) \<and>
   astype_columns pyint receiving_int_columns example_receiving = Inr example_receiving \<and>
   getitem example_receiving ''AVG'' = Inr (FloatS [NaN]) \<and>
   getitem example_receiving ''AVG/G'' = Inr (FloatS [NaN]) \<and>
   rows (table_of example_receiving)
     = [[SInt 10, SInt 8, SInt 0, SInt 0, SNull, SInt 0, SInt 0, SNull, SInt 501]]"
proof -
  have "rows (table_of example_receiving)
     = [[SInt 10, SInt 8, SInt 0, SInt 0, SNull, SInt 0, SInt 0, SNull, SInt 501]]"
    by (simp add: table_of_def example_receiving_def transpose.simps)
  then show ?thesis
    using astype_columns_other[of pyint cols df df' c] example_receiving_cast[of pyint]
    by (simp add: example_receiving_def)
qed

text \<open>Claim C6 on the sample roster: the weights, one missing, are as parsed.\<close>

theorem unmapped_columns_pass_through_witness:
  "getitem example_roster_coerced ''weight'' = Inr (FloatS [NaN, Finite 205 0])"
proof -
  have "astype_columns (int_of_str example_env) roster_int_columns example_roster
          = Inr example_roster_coerced \<and> ''weight'' \<notin> set roster_int_columns"
    by (simp add: cast_defs example_roster_def example_roster_coerced_def)
  with unmapped_columns_pass_through[of "int_of_str example_env" roster_int_columns
      example_roster example_roster_coerced "''weight''"]
  show ?thesis by (simp add: example_roster_def)
qed



text \<open>
  Claim C8.  After a successful run, a second run in the same environment over the store
  the first one left succeeds as well and leaves the store equal to what it found.
\<close>

theorem rerun_gives_same_tables:
  assumes "create_football_database env (init_world d) = (Inr (), w1)"
  shows "\<exists>w2. create_football_database env (init_world (db w1)) = (Inr (), w2) \<and> db w2 = db w1"
proof -
  from run_Inr[OF assms] obtain r ro u1 where
    l1: "load_tables env (init_world d) = (Inr (r, ro), u1)" and
    c: "connect_fault env db_path = None" and
    f: "\<forall>op\<in>set store_ops. db_fault env op = None" and
    db1: "db w1 = d(''receiving'' \<mapsto> table_of r, ''roster'' \<mapsto> table_of ro)"
    by blast
  have "fst (load_tables env (init_world (db w1))) = Inr (r, ro)"
    using load_tables_any_store[of env "db w1" d] l1 by simp
  then have l2: "load_tables env (init_world (db w1))
      = (Inr (r, ro), snd (load_tables env (init_world (db w1))))"
    by (simp add: prod_eq_iff)
  from run_ok[OF l2 c f] obtain w2 where
    run2: "create_football_database env (init_world (db w1)) = (Inr (), w2)" by blast
  from run_Inr[OF run2] l2 have
    "db w2 = (db w1)(''receiving'' \<mapsto> table_of r, ''roster'' \<mapsto> table_of ro)" by auto
  with db1 have "db w2 = db w1" by simp
  with run2 show ?thesis by blast
qed

text \<open>Claim C8 on the sample files, from an empty store.\<close>

theorem rerun_gives_same_tables_witness:
  "\<exists>w2. create_football_database example_env
           (init_world (db (snd (create_football_database example_env (init_world no_tables)))))
         = (Inr (), w2) \<and>
       db w2 = db (snd (create_football_database example_env (init_world no_tables)))"
proof -
  have "create_football_database example_env (init_world no_tables)
          = (Inr (), snd (create_football_database example_env (init_world no_tables)))"
    using example_run_ok[of no_tables] by (simp add: prod_eq_iff)
  from rerun_gives_same_tables[OF this] show ?thesis .
qed

text \<open>
  Claim C9.  No run ends with the connection open.  If the connection was opened, the run
  ends, whatever its result, with the connection closed, and closing it was the last thing
  that happened.
\<close>

theorem connection_closed_on_every_exit:
  assumes "create_football_database env (init_world d) = (r, w')"
  shows "conn w' \<noteq> Opened \<and>
         (EConnect db_path \<in> set (events w') \<and> connect_fault env db_path = None \<longrightarrow>
            conn w' = Closed \<and> last (events w') = EClose)"
  using assms
proof (cases rule: run_cases)
  case (load_fails e)
  from load_tables_quiet[OF load_fails(1)] show ?thesis by (auto simp: list_all_iff)
next
  case (connect_fails dfs w1 e)
  from load_tables_quiet[OF connect_fails(1)] connect_fails(2,4) show ?thesis
    by (simp add: log_event_def)
next
  case (stores receiving_df roster_df w1)
  from try_close[OF stores(3)] show ?thesis by simp
qed

text \<open>Claim C9 on a run whose second count query finds the store locked.\<close>

theorem connection_closed_on_every_exit_witness:
  "fst (create_football_database env_locked_query (init_world no_tables)) = Inl locked \<and>
   conn (snd (create_football_database env_locked_query (init_world no_tables))) = Closed \<and>
   last (events (snd (create_football_database env_locked_query (init_world no_tables)))) = EClose"
proof -
  have "create_football_database env_locked_query (init_world no_tables)
          = (Inl locked, snd (create_football_database env_locked_query (init_world no_tables)))"
    using locked_query_run(1)[of no_tables] by (simp add: prod_eq_iff)
  moreover have "connect_fault env_locked_query db_path = None" by (simp add: example_defs)
  ultimately show ?thesis
    using connection_closed_on_every_exit[of env_locked_query no_tables "Inl locked"
        "snd (create_football_database env_locked_query (init_world no_tables))"]
      locked_query_run[of no_tables]
    by simp
qed

text \<open>
  Claim C10.  If loading (the existence checks, the parsing or the casts of either frame)
  fails, the run ends there with that error: no connection was asked for, no store
  operation was sent, and the store is as it was.  Conversely, a run that asked for the
  connection had loaded and cast both frames before.
\<close>

theorem store_opened_only_after_loading:
  assumes "create_football_database env (init_world d) = (r, w')"
  shows "(\<forall>e w1. load_tables env (init_world d) = (Inl e, w1) \<longrightarrow>
            r = Inl e \<and> w' = w1 \<and> db w' = d \<and> conn w' = NoConn \<and>
            EConnect db_path \<notin> set (events w') \<and> (\<forall>op. EDb op \<notin> set (events w'))) \<and>
         (EConnect db_path \<in> set (events w') \<longrightarrow>
            (\<exists>receiving_df roster_df w1.
               load_tables env (init_world d) = (Inr (receiving_df, roster_df), w1)))"
  using assms
proof (cases rule: run_cases)
  case (load_fails e)
  from load_tables_quiet[OF load_fails(1)] load_fails show ?thesis
    by (auto simp: list_all_iff)
next
  case (connect_fails dfs w1 e)
  then show ?thesis by (cases dfs) simp
next
  case (stores receiving_df roster_df w1)
  then show ?thesis by simp
qed

text \<open>
  Claim C10 on a roster file the parser rejects, and on a run that reached the store.
\<close>

theorem store_opened_only_after_loading_witness:
  "fst (create_football_database env_bad_roster (init_world old_tables))
     = Inl (LibraryError ''pandas.errors.ParserError'' ''Error tokenizing data'') \<and>
   db (snd (create_football_database env_bad_roster (init_world old_tables))) = old_tables \<and>
   conn (snd (create_football_database env_bad_roster (init_world old_tables))) = NoConn \<and>
   EConnect db_path \<notin> set (events (snd (create_football_database env_bad_roster (init_world old_tables)))) \<and>
   (\<exists>receiving_df roster_df w1.
      load_tables env_locked_query (init_world no_tables) = (Inr (receiving_df, roster_df), w1))"
proof -
  let ?e = "LibraryError ''pandas.errors.ParserError'' ''Error tokenizing data''"
  have "fst (load_tables env_bad_roster (init_world old_tables)) = Inl ?e"
    by (simp add: load_tables_def check_inputs_def load_receiving_def load_roster_def bnd_def
        print_def read_csv_def lift_def ret_def raise_def path_exists_def example_defs
        example_receiving_cast)
  then have l: "load_tables env_bad_roster (init_world old_tables)
      = (Inl ?e, snd (load_tables env_bad_roster (init_world old_tables)))"
    by (simp add: prod_eq_iff)
  obtain r w' where run: "create_football_database env_bad_roster (init_world old_tables) = (r, w')"
    by (cases "create_football_database env_bad_roster (init_world old_tables)")
  from store_opened_only_after_loading[OF run] l run have fails:
    "fst (create_football_database env_bad_roster (init_world old_tables)) = Inl ?e \<and>
     db (snd (create_football_database env_bad_roster (init_world old_tables))) = old_tables \<and>
     conn (snd (create_football_database env_bad_roster (init_world old_tables))) = NoConn \<and>
     EConnect db_path \<notin> set (events (snd (create_football_database env_bad_roster
       (init_world old_tables))))"
    by auto
  have "create_football_database env_locked_query (init_world no_tables)
      = (Inl locked, snd (create_football_database env_locked_query (init_world no_tables)))"
    using locked_query_run(1)[of no_tables] by (simp add: prod_eq_iff)
  from store_opened_only_after_loading[OF this] locked_query_run(2)[of no_tables]
  have "\<exists>receiving_df roster_df w1.
      load_tables env_locked_query (init_world no_tables) = (Inr (receiving_df, roster_df), w1)"
    by blast
  with fails show ?thesis by blast
qed

end
